theory Spec2Isabelle
  imports Complex_Main "HOL-Library.Multiset"
begin

section \<open>JavaScript values used by the forms\<close>

text \<open>
  Strings are lists of code units. A \<^typ>\<open>char\<close> stands for a code unit below 256, so the
  white space and line terminators that \<open>String.prototype.trim\<close> removes are, in this range,
  TAB, LF, VT, FF, CR, SPACE and NBSP.
\<close>

definition white_space :: "char \<Rightarrow> bool" where
  "white_space c \<longleftrightarrow>
     c \<in> set [CHR 0x09, CHR 0x0A, CHR 0x0B, CHR 0x0C, CHR 0x0D, CHR 0x20, CHR 0xA0]"

text \<open>\<open>s.trim()\<close>: white space is dropped at both ends.\<close>

definition js_trim :: "string \<Rightarrow> string" where
  "js_trim s = rev (dropWhile white_space (rev (dropWhile white_space s)))"

text \<open>
  \<open>s.split(sep)\<close> for a separator of one code unit: the pieces between the separators,
  empty pieces included, so that the empty string gives one empty piece.
\<close>

fun js_split :: "string \<Rightarrow> char \<Rightarrow> string list" where
  "js_split [] sep = [[]]"
| "js_split (c # cs) sep =
     (if c = sep then [] # js_split cs sep
      else (case js_split cs sep of
              [] \<Rightarrow> [[c]]
            | p # ps \<Rightarrow> (c # p) # ps))"

text \<open>\<open>xs.join(sep)\<close>: the elements with the separator between neighbours.\<close>

fun js_join :: "string list \<Rightarrow> string \<Rightarrow> string" where
  "js_join [] sep = []"
| "js_join [x] sep = x"
| "js_join (x # y # ys) sep = x @ sep @ js_join (y # ys) sep"

text \<open>
  A \<open>number\<close>: a finite value, one of the infinities, or NaN. Finite values are kept as
  rationals (every finite double is one); the forms only compare a number with zero and
  test its truthiness, and both zeros are \<open>Finite 0\<close>.
\<close>

datatype number = NaN | Finite rat | PosInfinity | NegInfinity

text \<open>\<open>n <= 0\<close> on numbers: false for NaN.\<close>

fun num_le_zero :: "number \<Rightarrow> bool" where
  "num_le_zero NaN = False"
| "num_le_zero (Finite r) = (r \<le> 0)"
| "num_le_zero PosInfinity = False"
| "num_le_zero NegInfinity = True"

text \<open>Truthiness of a number: zero and NaN are falsy.\<close>

fun num_truthy :: "number \<Rightarrow> bool" where
  "num_truthy NaN = False"
| "num_truthy (Finite r) = (r \<noteq> 0)"
| "num_truthy PosInfinity = True"
| "num_truthy NegInfinity = True"

text \<open>
  The value of a property of the task form: a string or a number. The interface declares
  which one each property holds, but \<open>handleChange\<close> stores by computed name, so the model
  keeps the tag.
\<close>

datatype jsval = Str string | Num number

datatype js_error = TypeError

text \<open>\<open>v.trim()\<close>: a number has no such method, and the call throws.\<close>

fun call_trim :: "jsval \<Rightarrow> js_error + string" where
  "call_trim (Str s) = Inr (js_trim s)"
| "call_trim (Num n) = Inl TypeError"

text \<open>\<open>!v\<close>\<close>

fun js_not :: "jsval \<Rightarrow> bool" where
  "js_not (Str s) = (s = [])"
| "js_not (Num n) = (\<not> num_truthy n)"

text \<open>
  \<open>v <= 0\<close>: a string operand is converted by the language's string-to-number conversion,
  which is passed in as \<open>toNumber\<close>.
\<close>

fun js_le_zero :: "(string \<Rightarrow> number) \<Rightarrow> jsval \<Rightarrow> bool" where
  "js_le_zero toNumber (Str s) = num_le_zero (toNumber s)"
| "js_le_zero toNumber (Num n) = num_le_zero n"

section \<open>Form state, API results and observable actions\<close>

text \<open>
  An object whose interface makes every property required is a function from property
  names to values; the error object, a \<open>Partial<Record<...>>\<close>, is a map.
\<close>

type_synonym error_set = "string \<rightharpoonup> string"

record 'v form_state =
  formData :: "string \<Rightarrow> 'v"
  errors :: error_set
  isSubmitting :: bool

text \<open>
  A call of the API either resolves or rejects; a rejection may carry
  \<open>error.response.data.message\<close>.
\<close>

datatype api_result = Resolved | Rejected "string option"

text \<open>\<open>error.response?.data?.message || fallback\<close>\<close>

fun message_or :: "string option \<Rightarrow> string \<Rightarrow> string" where
  "message_or None fallback = fallback"
| "message_or (Some m) fallback = (if m = [] then fallback else m)"

text \<open>What a submission does to the outside, in order.\<close>

datatype 'p action =
    ApiValidate 'p bool
  | ApiUpdate 'p
  | ApiCreate 'p
  | ToastError string
  | ToastSuccess string
  | OnSubmit

fun is_store_write :: "'p action \<Rightarrow> bool" where
  "is_store_write (ApiUpdate p) = True"
| "is_store_write (ApiCreate p) = True"
| "is_store_write a = False"

section \<open>EmployeeForm\<close>

type_synonym EmployeeFormData = "string \<Rightarrow> string"

text \<open>
  An \<open>Employee\<close> has the properties of the form data, but \<open>emp_skills\<close> is an array of
  strings; \<open>emp_skills\<close> holds it, and the entry of \<open>props\<close> under that name is not read.
\<close>

record Employee =
  props :: "string \<Rightarrow> string"
  emp_skills :: "string list"

record employeeApi =
  validateEmployee :: "Employee \<Rightarrow> bool \<Rightarrow> api_result"
  updateEmployee :: "Employee \<Rightarrow> api_result"
  createEmployee :: "Employee \<Rightarrow> api_result"

text \<open>
  \<open>initialFormData\<close>; \<open>now\<close> is the time stamp \<open>new Date().toISOString()\<close>. Names outside
  the interface are never read.
\<close>

definition EmployeeForm_initialFormData :: "string \<Rightarrow> EmployeeFormData" where
  "EmployeeForm_initialFormData now =
     (\<lambda>k. [])(''ID'' := [], ''emp_Id'' := [], ''emp_name'' := [], ''emp_designation'' := [],
              ''emp_skills'' := [], ''date_of_join'' := [], ''created_date'' := now,
              ''created_by'' := ''current_user'', ''last_updated_date'' := now,
              ''last_updated_by'' := ''current_user'')"

text \<open>The effect hook: an employee passed to the form is loaded with its skills joined.\<close>

definition EmployeeForm_useEffect ::
  "Employee option \<Rightarrow> string form_state \<Rightarrow> string form_state" where
  "EmployeeForm_useEffect employee st =
     (case employee of
        None \<Rightarrow> st
      | Some e \<Rightarrow> st\<lparr>formData := (props e)(''emp_skills'' := js_join (emp_skills e) '', '')\<rparr>)"

text \<open>The error object that \<open>validateForm\<close> builds, one conditional assignment after another.\<close>

definition EmployeeForm_newErrors :: "EmployeeFormData \<Rightarrow> error_set" where
  "EmployeeForm_newErrors fd =
     (let e0 = Map.empty;
          e1 = (if js_trim (fd ''emp_Id'') = [] then e0(''emp_Id'' \<mapsto> ''Employee ID is required'') else e0);
          e2 = (if js_trim (fd ''emp_name'') = [] then e1(''emp_name'' \<mapsto> ''Employee name is required'') else e1);
          e3 = (if js_trim (fd ''emp_designation'') = []
                then e2(''emp_designation'' \<mapsto> ''Designation is required'') else e2);
          e4 = (if fd ''date_of_join'' = []
                then e3(''date_of_join'' \<mapsto> ''Date of joining is required'') else e3)
      in e4)"

text \<open>The payload built from the form data: skills split at commas and trimmed.\<close>

definition EmployeeForm_employeeData :: "EmployeeFormData \<Rightarrow> Employee" where
  "EmployeeForm_employeeData fd =
     \<lparr>props = fd, emp_skills = map js_trim (js_split (fd ''emp_skills'') CHR '','')\<rparr>"

text \<open>
  \<open>validateForm\<close>: the result, the state after \<open>setErrors\<close>, and the actions performed.
\<close>

definition EmployeeForm_validateForm ::
  "employeeApi \<Rightarrow> Employee option \<Rightarrow> string form_state
     \<Rightarrow> bool \<times> string form_state \<times> Employee action list" where
  "EmployeeForm_validateForm api employee st =
     (let newErrors = EmployeeForm_newErrors (formData st);
          st1 = st\<lparr>errors := newErrors\<rparr>
      in if dom newErrors \<noteq> {} then (False, st1, [])
         else
           (let employeeData = EmployeeForm_employeeData (formData st)
            in case validateEmployee api employeeData (employee \<noteq> None) of
                 Resolved \<Rightarrow> (True, st1, [ApiValidate employeeData (employee \<noteq> None)])
               | Rejected m \<Rightarrow>
                   (False, st1,
                    [ApiValidate employeeData (employee \<noteq> None),
                     ToastError (message_or m ''Validation failed'')])))"

text \<open>
  \<open>handleSubmit\<close>; \<open>now\<close> is the time stamp \<open>new Date().toISOString()\<close>. The state returned
  is the one after the \<open>finally\<close> block. The callback \<open>onSubmit\<close> and the toasts are taken
  to return normally.
\<close>

definition EmployeeForm_handleSubmit ::
  "employeeApi \<Rightarrow> string \<Rightarrow> Employee option \<Rightarrow> string form_state
     \<Rightarrow> string form_state \<times> Employee action list" where
  "EmployeeForm_handleSubmit api now employee st =
     (case EmployeeForm_validateForm api employee (st\<lparr>isSubmitting := True\<rparr>) of
        (isValid, st1, acts) \<Rightarrow>
          if \<not> isValid then (st1\<lparr>isSubmitting := False\<rparr>, acts)
          else
            (let d = EmployeeForm_employeeData (formData st);
                 employeeData = d\<lparr>props := (props d)(''last_updated_date'' := now)\<rparr>
             in if employee \<noteq> None then
                  (case updateEmployee api employeeData of
                     Resolved \<Rightarrow>
                       (st1\<lparr>isSubmitting := False\<rparr>,
                        acts @ [ApiUpdate employeeData,
                                ToastSuccess ''Employee updated successfully'', OnSubmit])
                   | Rejected m \<Rightarrow>
                       (st1\<lparr>isSubmitting := False\<rparr>,
                        acts @ [ApiUpdate employeeData,
                                ToastError (message_or m ''Operation failed'')]))
                else
                  (case createEmployee api employeeData of
                     Resolved \<Rightarrow>
                       (st1\<lparr>isSubmitting := False\<rparr>,
                        acts @ [ApiCreate employeeData,
                                ToastSuccess ''Employee created successfully'', OnSubmit])
                   | Rejected m \<Rightarrow>
                       (st1\<lparr>isSubmitting := False\<rparr>,
                        acts @ [ApiCreate employeeData,
                                ToastError (message_or m ''Operation failed'')]))))"

text \<open>
  \<open>handleChange\<close> with the \<open>name\<close> and \<open>value\<close> of the event's target: the property is
  stored, and a truthy error under that name is replaced by the empty string.
\<close>

definition EmployeeForm_handleChange ::
  "string \<Rightarrow> string \<Rightarrow> string form_state \<Rightarrow> string form_state" where
  "EmployeeForm_handleChange name value st =
     st\<lparr>formData := (formData st)(name := value),
        errors := (case errors st name of
                     None \<Rightarrow> errors st
                   | Some m \<Rightarrow> if m = [] then errors st else (errors st)(name \<mapsto> [])) \<rparr>"

section \<open>TaskForm\<close>

type_synonym TaskFormData = "string \<Rightarrow> jsval"

text \<open>
  The interface \<open>Task\<close>: which properties hold strings and which hold numbers.
\<close>

definition Task_string_props :: "string list" where
  "Task_string_props =
     [''task_id'', ''task_name'', ''task_description'', ''expected_outcome'', ''emp_id'',
      ''project_ID'', ''start_date'', ''completion_date'', ''created_date'', ''created_by'',
      ''last_updated_date'', ''last_updated_by'']"

definition Task_number_props :: "string list" where
  "Task_number_props = [''estimated_hours'', ''actual_hours'']"

fun is_Str :: "jsval \<Rightarrow> bool" where
  "is_Str (Str s) = True"
| "is_Str (Num n) = False"

definition is_Task :: "TaskFormData \<Rightarrow> bool" where
  "is_Task fd \<longleftrightarrow>
     list_all (\<lambda>k. is_Str (fd k)) Task_string_props \<and>
     list_all (\<lambda>k. \<not> is_Str (fd k)) Task_number_props"

record taskApi =
  validateTask :: "TaskFormData \<Rightarrow> bool \<Rightarrow> api_result"
  updateTask :: "TaskFormData \<Rightarrow> api_result"
  createTask :: "TaskFormData \<Rightarrow> api_result"

definition TaskForm_initialFormData :: "string \<Rightarrow> TaskFormData" where
  "TaskForm_initialFormData now =
     (\<lambda>k. Str [])(''task_id'' := Str [], ''task_name'' := Str [], ''task_description'' := Str [],
                  ''expected_outcome'' := Str [], ''emp_id'' := Str [], ''project_ID'' := Str [],
                  ''estimated_hours'' := Num (Finite 0), ''actual_hours'' := Num (Finite 0),
                  ''start_date'' := Str [], ''completion_date'' := Str [], ''created_date'' := Str now,
                  ''created_by'' := Str ''current_user'', ''last_updated_date'' := Str now,
                  ''last_updated_by'' := Str ''current_user'')"

definition TaskForm_useEffect ::
  "TaskFormData option \<Rightarrow> jsval form_state \<Rightarrow> jsval form_state" where
  "TaskForm_useEffect task st =
     (case task of None \<Rightarrow> st | Some t \<Rightarrow> st\<lparr>formData := t\<rparr>)"

text \<open>
  The error object that \<open>validateForm\<close> builds. A \<open>trim\<close> call that throws ends the
  function before any error is recorded.
\<close>

definition TaskForm_newErrors :: "(string \<Rightarrow> number) \<Rightarrow> TaskFormData \<Rightarrow> js_error + error_set" where
  "TaskForm_newErrors toNumber fd =
     (let e0 = Map.empty in
      case call_trim (fd ''task_name'') of
        Inl x \<Rightarrow> Inl x
      | Inr t1 \<Rightarrow>
     (let e1 = (if t1 = [] then e0(''task_name'' \<mapsto> ''Task name is required'') else e0) in
      case call_trim (fd ''emp_id'') of
        Inl x \<Rightarrow> Inl x
      | Inr t2 \<Rightarrow>
     (let e2 = (if t2 = [] then e1(''emp_id'' \<mapsto> ''Employee ID is required'') else e1) in
      case call_trim (fd ''project_ID'') of
        Inl x \<Rightarrow> Inl x
      | Inr t3 \<Rightarrow>
     (let e3 = (if t3 = [] then e2(''project_ID'' \<mapsto> ''Project ID is required'') else e2);
          e4 = (if js_not (fd ''start_date'')
                then e3(''start_date'' \<mapsto> ''Start date is required'') else e3);
          e5 = (if js_le_zero toNumber (fd ''estimated_hours'')
                then e4(''estimated_hours'' \<mapsto> ''Estimated hours must be greater than 0'')
                else e4)
      in Inr e5))))"

definition TaskForm_validateForm ::
  "taskApi \<Rightarrow> (string \<Rightarrow> number) \<Rightarrow> TaskFormData option \<Rightarrow> jsval form_state
     \<Rightarrow> js_error + (bool \<times> jsval form_state \<times> TaskFormData action list)" where
  "TaskForm_validateForm api toNumber task st =
     (case TaskForm_newErrors toNumber (formData st) of
        Inl x \<Rightarrow> Inl x
      | Inr newErrors \<Rightarrow>
          (let st1 = st\<lparr>errors := newErrors\<rparr>
           in if dom newErrors \<noteq> {} then Inr (False, st1, [])
              else
                (case validateTask api (formData st) (task \<noteq> None) of
                   Resolved \<Rightarrow> Inr (True, st1, [ApiValidate (formData st) (task \<noteq> None)])
                 | Rejected m \<Rightarrow>
                     Inr (False, st1,
                          [ApiValidate (formData st) (task \<noteq> None),
                           ToastError (message_or m ''Validation failed'')]))))"

text \<open>
  \<open>handleSubmit\<close>. An exception out of \<open>validateForm\<close> is caught by the handler's own
  \<open>catch\<close>; a \<open>TypeError\<close> has no \<open>response\<close>, so the fallback text is shown.
\<close>

definition TaskForm_handleSubmit ::
  "taskApi \<Rightarrow> (string \<Rightarrow> number) \<Rightarrow> string \<Rightarrow> TaskFormData option \<Rightarrow> jsval form_state
     \<Rightarrow> jsval form_state \<times> TaskFormData action list" where
  "TaskForm_handleSubmit api toNumber now task st =
     (case TaskForm_validateForm api toNumber task (st\<lparr>isSubmitting := True\<rparr>) of
        Inl x \<Rightarrow> (st\<lparr>isSubmitting := False\<rparr>, [ToastError (message_or None ''Operation failed'')])
      | Inr (isValid, st1, acts) \<Rightarrow>
          if \<not> isValid then (st1\<lparr>isSubmitting := False\<rparr>, acts)
          else
            (let taskData = (formData st)(''last_updated_date'' := Str now)
             in if task \<noteq> None then
                  (case updateTask api taskData of
                     Resolved \<Rightarrow>
                       (st1\<lparr>isSubmitting := False\<rparr>,
                        acts @ [ApiUpdate taskData,
                                ToastSuccess ''Task updated successfully'', OnSubmit])
                   | Rejected m \<Rightarrow>
                       (st1\<lparr>isSubmitting := False\<rparr>,
                        acts @ [ApiUpdate taskData,
                                ToastError (message_or m ''Operation failed'')]))
                else
                  (case createTask api taskData of
                     Resolved \<Rightarrow>
                       (st1\<lparr>isSubmitting := False\<rparr>,
                        acts @ [ApiCreate taskData,
                                ToastSuccess ''Task created successfully'', OnSubmit])
                   | Rejected m \<Rightarrow>
                       (st1\<lparr>isSubmitting := False\<rparr>,
                        acts @ [ApiCreate taskData,
                                ToastError (message_or m ''Operation failed'')]))))"

text \<open>\<open>parseFloat(value) || 0\<close> on the number that \<open>parseFloat\<close> returned.\<close>

definition or_zero :: "number \<Rightarrow> number" where
  "or_zero n = (if num_truthy n then n else Finite 0)"

text \<open>
  \<open>handleChange\<close> with the \<open>name\<close>, \<open>value\<close> and \<open>type\<close> of the event's target;
  \<open>parseFloat\<close> is the language's function of that name.
\<close>

definition TaskForm_handleChange ::
  "(string \<Rightarrow> number) \<Rightarrow> string \<Rightarrow> string \<Rightarrow> string \<Rightarrow> jsval form_state \<Rightarrow> jsval form_state" where
  "TaskForm_handleChange parseFloat name value type st =
     st\<lparr>formData := (formData st)
          (name := (if type = ''number'' then Num (or_zero (parseFloat value)) else Str value)),
        errors := (case errors st name of
                     None \<Rightarrow> errors st
                   | Some m \<Rightarrow> if m = [] then errors st else (errors st)(name \<mapsto> [])) \<rparr>"

section \<open>Hours Accumulator\<close>

text \<open>
  Modelled from the spec: the Entity Store, which the source files only reach through the
  API, as a map from task ids to Task records. Of a Task only the hours matter here; they
  are exact rationals, and no rounding is modelled.
\<close>

record StoredTask =
  estimatedHours :: rat
  actualHours :: rat

type_synonym entity_store = "string \<rightharpoonup> StoredTask"

datatype core_error = FieldValidationError | NotFoundError

text \<open>
  Modelled from the spec: \<open>addTaskHours\<close> (the Hours Accumulator's \<open>addHours\<close>), whose code is
  not among the source files. The spec's words: the delta must be at least 0, a negative
  delta fails with a validation error and is not clamped; accumulating on a missing id is a
  \<open>NotFoundError\<close>; otherwise the operation is one atomic read-modify-write of the Task's
  \<open>actualHours\<close> and returns the new total.
\<close>

definition addTaskHours :: "string \<Rightarrow> rat \<Rightarrow> entity_store \<Rightarrow> core_error + (rat \<times> entity_store)" where
  "addTaskHours taskId delta store =
     (if delta < 0 then Inl FieldValidationError
      else case store taskId of
             None \<Rightarrow> Inl NotFoundError
           | Some t \<Rightarrow>
               (let newTotal = actualHours t + delta
                in Inr (newTotal, store(taskId \<mapsto> t\<lparr>actualHours := newTotal\<rparr>))))"

text \<open>
  \<open>taskApi.updateActualHours\<close>, the caller in the source: it sends the task id and the
  hours to add to the endpoint \<open>PUT /tasks/{taskId}/hours\<close> as they are, returns the
  response and rethrows a failure. It neither checks nor changes the delta.
\<close>

definition updateActualHours ::
  "(string \<Rightarrow> rat \<Rightarrow> 's \<Rightarrow> 'e + 'r) \<Rightarrow> string \<Rightarrow> rat \<Rightarrow> 's \<Rightarrow> 'e + 'r" where
  "updateActualHours endpoint taskId hoursToAdd store =
     (case endpoint taskId hoursToAdd store of
        Inl error \<Rightarrow> Inl error
      | Inr response \<Rightarrow> Inr response)"

text \<open>
  Modelled from the spec: concurrent calls on one Task serialise at the store, so an
  execution of several calls is their execution one after another in some order. A call
  that fails leaves the store as it was.
\<close>

fun addTaskHours_calls :: "string \<Rightarrow> rat list \<Rightarrow> entity_store \<Rightarrow> entity_store" where
  "addTaskHours_calls taskId [] store = store"
| "addTaskHours_calls taskId (delta # deltas) store =
     (case updateActualHours addTaskHours taskId delta store of
        Inl x \<Rightarrow> addTaskHours_calls taskId deltas store
      | Inr (newTotal, store') \<Rightarrow> addTaskHours_calls taskId deltas store')"

section \<open>Date order and example data\<close>

text \<open>
  The order of JavaScript's \<open><=\<close> on strings, code unit by code unit. Calendar dates
  written \<open>yyyy-mm-dd\<close>, as a date input delivers them, are ordered by it.
\<close>

fun js_string_le :: "string \<Rightarrow> string \<Rightarrow> bool" where
  "js_string_le [] t = True"
| "js_string_le (c # s) [] = False"
| "js_string_le (c # s) (d # t) =
     ((of_char c :: nat) < of_char d \<or> (c = d \<and> js_string_le s t))"

text \<open>Concrete inputs, used where a statement is evaluated.\<close>

definition example_now :: string where
  "example_now = ''2024-03-01T09:00:00.000Z''"

definition example_employee_form :: EmployeeFormData where
  "example_employee_form =
     (EmployeeForm_initialFormData example_now)
       (''emp_Id'' := ''E1'', ''emp_name'' := ''A'', ''emp_designation'' := ''Eng'',
        ''emp_skills'' := ''React, TypeScript'', ''date_of_join'' := ''2024-01-01'')"

definition example_task_form :: TaskFormData where
  "example_task_form =
     (TaskForm_initialFormData example_now)
       (''task_name'' := Str ''T1'', ''emp_id'' := Str ''E1'', ''project_ID'' := Str ''P1'',
        ''estimated_hours'' := Num (Finite 5), ''start_date'' := Str ''2024-02-01'',
        ''completion_date'' := Str ''2024-01-01'')"

definition example_employee_state :: "string form_state" where
  "example_employee_state = \<lparr>formData = example_employee_form, errors = Map.empty, isSubmitting = False\<rparr>"

definition example_task_state :: "jsval form_state" where
  "example_task_state = \<lparr>formData = example_task_form, errors = Map.empty, isSubmitting = False\<rparr>"

definition accepting_employeeApi :: employeeApi where
  "accepting_employeeApi =
     \<lparr>validateEmployee = (\<lambda>e u. Resolved), updateEmployee = (\<lambda>e. Resolved), createEmployee = (\<lambda>e. Resolved)\<rparr>"

definition accepting_taskApi :: taskApi where
  "accepting_taskApi =
     \<lparr>validateTask = (\<lambda>t u. Resolved), updateTask = (\<lambda>t. Resolved), createTask = (\<lambda>t. Resolved)\<rparr>"

definition always_NaN :: "string \<Rightarrow> number" where
  "always_NaN s = NaN"

definition example_store :: entity_store where
  "example_store = Map.empty(''T1'' \<mapsto> \<lparr>estimatedHours = 5, actualHours = 1\<rparr>)"

section \<open>Properties\<close>

subsection \<open>Trimming, splitting and joining\<close>

lemma js_trim_Nil: "js_trim [] = []"
  by (simp add: js_trim_def)

lemma js_trim_white: "list_all white_space v \<Longrightarrow> js_trim v = []"
  by (auto simp: js_trim_def list_all_iff dest: set_dropWhileD)

lemma js_trim_id:
  assumes "s = [] \<or> (\<not> white_space (hd s) \<and> \<not> white_space (last s))"
  shows "js_trim s = s"
proof -
  from assms have front: "dropWhile white_space s = s"
    by (auto simp: dropWhile_eq_self_iff)
  from assms have "rev s = [] \<or> \<not> white_space (hd (rev s))"
    by (auto simp: hd_rev)
  then have "dropWhile white_space (rev s) = rev s"
    by (simp only: dropWhile_eq_self_iff)
  with front show ?thesis
    by (simp add: js_trim_def)
qed

lemma js_trim_space:
  assumes "s = [] \<or> (\<not> white_space (hd s) \<and> \<not> white_space (last s))"
  shows "js_trim (CHR '' '' # s) = s"
proof -
  have "white_space CHR '' ''"
    by (simp add: white_space_def)
  then have "js_trim (CHR '' '' # s) = js_trim s"
    by (simp add: js_trim_def)
  with js_trim_id [OF assms] show ?thesis
    by simp
qed

lemma js_trim_examples: "js_trim ''E1'' = ''E1''" "js_trim ''A'' = ''A''" "js_trim ''Eng'' = ''Eng''"
  "js_trim ''T1'' = ''T1''" "js_trim ''P1'' = ''P1''" "js_trim '' '' = []" "js_trim [] = []"
  by (simp_all add: js_trim_def white_space_def)

lemma js_split_no_sep: "sep \<notin> set x \<Longrightarrow> js_split x sep = [x]"
  by (induction x) auto

lemma js_split_append: "sep \<notin> set x \<Longrightarrow> js_split (x @ sep # r) sep = x # js_split r sep"
  by (induction x) auto

lemma js_split_join:
  "xs \<noteq> [] \<Longrightarrow> \<forall>s\<in>set xs. CHR '','' \<notin> set s \<Longrightarrow>
   js_split (js_join xs '', '') CHR '','' = hd xs # map ((#) CHR '' '') (tl xs)"
proof (induction xs "'', ''" rule: js_join.induct)
  case 1
  then show ?case by simp
next
  case (2 x)
  then show ?case by (simp add: js_split_no_sep)
next
  case (3 x y ys)
  then have "js_split (js_join (y # ys) '', '') CHR '','' = y # map ((#) CHR '' '') ys"
    by simp
  with 3 show ?case
    by (simp add: js_split_append)
qed

subsection \<open>The error object of the employee form\<close>

lemma dom_EmployeeForm_newErrors:
  "dom (EmployeeForm_newErrors fd) =
     (if js_trim (fd ''emp_Id'') = [] then {''emp_Id''} else {}) \<union>
     (if js_trim (fd ''emp_name'') = [] then {''emp_name''} else {}) \<union>
     (if js_trim (fd ''emp_designation'') = [] then {''emp_designation''} else {}) \<union>
     (if fd ''date_of_join'' = [] then {''date_of_join''} else {})"
  by (simp add: EmployeeForm_newErrors_def Let_def)

lemma newErrors_example_employee: "EmployeeForm_newErrors example_employee_form = Map.empty"
  by (simp add: EmployeeForm_newErrors_def example_employee_form_def EmployeeForm_initialFormData_def js_trim_examples)

text \<open>
  C3. The error object of the employee form has an entry for exactly those of \<open>emp_Id\<close>,
  \<open>emp_name\<close>, \<open>emp_designation\<close> (empty after trimming) and \<open>date_of_join\<close> (empty) that are
  missing, has no other entry, and is non-empty exactly when one of the four is missing.
\<close>

theorem validateEmployee_exactly_missing:
  "(''emp_Id'' \<in> dom (EmployeeForm_newErrors fd) \<longleftrightarrow> js_trim (fd ''emp_Id'') = []) \<and>
   (''emp_name'' \<in> dom (EmployeeForm_newErrors fd) \<longleftrightarrow> js_trim (fd ''emp_name'') = []) \<and>
   (''emp_designation'' \<in> dom (EmployeeForm_newErrors fd) \<longleftrightarrow> js_trim (fd ''emp_designation'') = []) \<and>
   (''date_of_join'' \<in> dom (EmployeeForm_newErrors fd) \<longleftrightarrow> fd ''date_of_join'' = []) \<and>
   dom (EmployeeForm_newErrors fd) \<subseteq> {''emp_Id'', ''emp_name'', ''emp_designation'', ''date_of_join''} \<and>
   (dom (EmployeeForm_newErrors fd) \<noteq> {} \<longleftrightarrow>
      js_trim (fd ''emp_Id'') = [] \<or> js_trim (fd ''emp_name'') = [] \<or>
      js_trim (fd ''emp_designation'') = [] \<or> fd ''date_of_join'' = [])"
  unfolding dom_EmployeeForm_newErrors by auto

subsection \<open>The error object of the task form\<close>

lemma is_Task_text_fields:
  assumes "is_Task fd"
  obtains a b c where "fd ''task_name'' = Str a" "fd ''emp_id'' = Str b" "fd ''project_ID'' = Str c"
proof -
  from assms have "is_Str (fd ''task_name'')" "is_Str (fd ''emp_id'')" "is_Str (fd ''project_ID'')"
    by (simp_all add: is_Task_def Task_string_props_def)
  then show thesis
    using that by (cases "fd ''task_name''"; cases "fd ''emp_id''"; cases "fd ''project_ID''") simp_all
qed

lemma TaskForm_newErrors_Str:
  assumes "fd ''task_name'' = Str a" "fd ''emp_id'' = Str b" "fd ''project_ID'' = Str c"
  shows "\<exists>E. TaskForm_newErrors toNumber fd = Inr E \<and>
           dom E =
             (if js_trim a = [] then {''task_name''} else {}) \<union>
             (if js_trim b = [] then {''emp_id''} else {}) \<union>
             (if js_trim c = [] then {''project_ID''} else {}) \<union>
             (if js_not (fd ''start_date'') then {''start_date''} else {}) \<union>
             (if js_le_zero toNumber (fd ''estimated_hours'') then {''estimated_hours''} else {}) \<and>
           (js_le_zero toNumber (fd ''estimated_hours'') \<longrightarrow>
              E ''estimated_hours'' = Some ''Estimated hours must be greater than 0'')"
  using assms by (simp add: TaskForm_newErrors_def Let_def)

lemma newErrors_example_task: "TaskForm_newErrors tn example_task_form = Inr Map.empty"
  by (simp add: TaskForm_newErrors_def example_task_form_def TaskForm_initialFormData_def js_trim_examples)

text \<open>
  C2. A Task payload whose \<open>estimated_hours\<close> is a number less than or equal to 0 is
  rejected by \<open>validateForm\<close> with the error on \<open>estimated_hours\<close> and no API call. An input
  of the number field for which \<open>parseFloat\<close> gives NaN is stored by \<open>handleChange\<close> as 0, and
  the form is then rejected with the same error.
\<close>

theorem estimated_hours_rule:
  assumes "is_Task (formData st)"
  shows "(\<forall>n. formData st ''estimated_hours'' = Num n \<and> num_le_zero n \<longrightarrow>
            (\<exists>E. TaskForm_newErrors toNumber (formData st) = Inr E \<and>
                 E ''estimated_hours'' = Some ''Estimated hours must be greater than 0'' \<and>
                 TaskForm_validateForm api toNumber task st = Inr (False, st\<lparr>errors := E\<rparr>, []))) \<and>
         (\<forall>value. parseFloat value = NaN \<longrightarrow>
            (let st' = TaskForm_handleChange parseFloat ''estimated_hours'' value ''number'' st
             in formData st' ''estimated_hours'' = Num (Finite 0) \<and>
                (\<exists>E. TaskForm_newErrors toNumber (formData st') = Inr E \<and>
                     E ''estimated_hours'' = Some ''Estimated hours must be greater than 0'' \<and>
                     TaskForm_validateForm api toNumber task st' = Inr (False, st'\<lparr>errors := E\<rparr>, []))))"
proof -
  from assms obtain a b c where
    flds: "formData st ''task_name'' = Str a" "formData st ''emp_id'' = Str b"
         "formData st ''project_ID'' = Str c"
    by (rule is_Task_text_fields)
  have rejected: "\<exists>E. TaskForm_newErrors toNumber (formData s) = Inr E \<and>
                 E ''estimated_hours'' = Some ''Estimated hours must be greater than 0'' \<and>
                 TaskForm_validateForm api toNumber task s = Inr (False, s\<lparr>errors := E\<rparr>, [])"
    if s: "formData s ''task_name'' = Str a" "formData s ''emp_id'' = Str b"
          "formData s ''project_ID'' = Str c" "js_le_zero toNumber (formData s ''estimated_hours'')"
    for s :: "jsval form_state"
  proof -
    from TaskForm_newErrors_Str [OF s(1-3), of toNumber] s(4)
    obtain E where E: "TaskForm_newErrors toNumber (formData s) = Inr E"
      "E ''estimated_hours'' = Some ''Estimated hours must be greater than 0''"
      by blast
    then have "dom E \<noteq> {}" by auto
    with E show ?thesis
      by (simp add: TaskForm_validateForm_def)
  qed
  have first: "\<exists>E. TaskForm_newErrors toNumber (formData st) = Inr E \<and>
                 E ''estimated_hours'' = Some ''Estimated hours must be greater than 0'' \<and>
                 TaskForm_validateForm api toNumber task st = Inr (False, st\<lparr>errors := E\<rparr>, [])"
    if "formData st ''estimated_hours'' = Num n" "num_le_zero n" for n
    using rejected [OF flds] that by simp
  have second: "let st' = TaskForm_handleChange parseFloat ''estimated_hours'' v ''number'' st
             in formData st' ''estimated_hours'' = Num (Finite 0) \<and>
                (\<exists>E. TaskForm_newErrors toNumber (formData st') = Inr E \<and>
                     E ''estimated_hours'' = Some ''Estimated hours must be greater than 0'' \<and>
                     TaskForm_validateForm api toNumber task st' = Inr (False, st'\<lparr>errors := E\<rparr>, []))"
    if "parseFloat v = NaN" for v
  proof -
    define st' where "st' = TaskForm_handleChange parseFloat ''estimated_hours'' v ''number'' st"
    have fd: "formData st' = (formData st)(''estimated_hours'' := Num (Finite 0))"
      using that by (simp add: st'_def TaskForm_handleChange_def or_zero_def)
    have "formData st' ''task_name'' = Str a" "formData st' ''emp_id'' = Str b"
      "formData st' ''project_ID'' = Str c" "js_le_zero toNumber (formData st' ''estimated_hours'')"
      using flds by (simp_all add: fd)
    from rejected [OF this] fd show ?thesis
      unfolding st'_def [symmetric] Let_def by simp
  qed
  from first second show ?thesis by blast
qed

text \<open>
  C2, at a task with \<open>estimated_hours\<close> \<open>-1\<close> and at the input \<open>abc\<close>.
\<close>

theorem estimated_hours_rule_witness:
  "is_Task (formData (example_task_state\<lparr>formData := example_task_form(''estimated_hours'' := Num (Finite (- 1)))\<rparr>)) \<and>
   num_le_zero (Finite (- 1)) \<and> always_NaN ''abc'' = NaN \<and>
   (\<exists>E. TaskForm_newErrors always_NaN (example_task_form(''estimated_hours'' := Num (Finite (- 1)))) = Inr E \<and>
        E ''estimated_hours'' = Some ''Estimated hours must be greater than 0'') \<and>
   formData (TaskForm_handleChange always_NaN ''estimated_hours'' ''abc'' ''number''
      (example_task_state\<lparr>formData := example_task_form(''estimated_hours'' := Num (Finite (- 1)))\<rparr>))
      ''estimated_hours'' = Num (Finite 0)"
proof -
  let ?st = "example_task_state\<lparr>formData := example_task_form(''estimated_hours'' := Num (Finite (- 1)))\<rparr>"
  have h: "is_Task (formData ?st)"
    by (simp add: is_Task_def example_task_form_def TaskForm_initialFormData_def Task_string_props_def Task_number_props_def)
  have n: "always_NaN ''abc'' = NaN" by (simp add: always_NaN_def)
  from estimated_hours_rule [OF h, of always_NaN accepting_taskApi None always_NaN] n h
  show ?thesis
    by (auto simp: Let_def)
qed

subsection \<open>Every violated rule is reported\<close>

text \<open>
  C8. Validation does not stop at the first failing rule: the keys of the error object are
  exactly the fields whose rule is violated, so their number is the number of violated
  rules, for the four rules of the employee form and the five rules of the task form.
\<close>

theorem validation_reports_every_violation:
  "dom (EmployeeForm_newErrors efd) =
     (if js_trim (efd ''emp_Id'') = [] then {''emp_Id''} else {}) \<union>
     (if js_trim (efd ''emp_name'') = [] then {''emp_name''} else {}) \<union>
     (if js_trim (efd ''emp_designation'') = [] then {''emp_designation''} else {}) \<union>
     (if efd ''date_of_join'' = [] then {''date_of_join''} else {}) \<and>
   card (dom (EmployeeForm_newErrors efd)) =
     length (filter id [js_trim (efd ''emp_Id'') = [], js_trim (efd ''emp_name'') = [],
                        js_trim (efd ''emp_designation'') = [], efd ''date_of_join'' = []]) \<and>
   (is_Task tfd \<longrightarrow>
      (\<exists>E. TaskForm_newErrors toNumber tfd = Inr E \<and>
           dom E =
             (if call_trim (tfd ''task_name'') = Inr [] then {''task_name''} else {}) \<union>
             (if call_trim (tfd ''emp_id'') = Inr [] then {''emp_id''} else {}) \<union>
             (if call_trim (tfd ''project_ID'') = Inr [] then {''project_ID''} else {}) \<union>
             (if js_not (tfd ''start_date'') then {''start_date''} else {}) \<union>
             (if js_le_zero toNumber (tfd ''estimated_hours'') then {''estimated_hours''} else {}) \<and>
           card (dom E) =
             length (filter id [call_trim (tfd ''task_name'') = Inr [], call_trim (tfd ''emp_id'') = Inr [],
                                call_trim (tfd ''project_ID'') = Inr [], js_not (tfd ''start_date''),
                                js_le_zero toNumber (tfd ''estimated_hours'')])))"
proof -
  have emp: "card (dom (EmployeeForm_newErrors efd)) =
     length (filter id [js_trim (efd ''emp_Id'') = [], js_trim (efd ''emp_name'') = [],
                        js_trim (efd ''emp_designation'') = [], efd ''date_of_join'' = []])"
    unfolding dom_EmployeeForm_newErrors by simp
  have task: "\<exists>E. TaskForm_newErrors toNumber tfd = Inr E \<and>
           dom E =
             (if call_trim (tfd ''task_name'') = Inr [] then {''task_name''} else {}) \<union>
             (if call_trim (tfd ''emp_id'') = Inr [] then {''emp_id''} else {}) \<union>
             (if call_trim (tfd ''project_ID'') = Inr [] then {''project_ID''} else {}) \<union>
             (if js_not (tfd ''start_date'') then {''start_date''} else {}) \<union>
             (if js_le_zero toNumber (tfd ''estimated_hours'') then {''estimated_hours''} else {}) \<and>
           card (dom E) =
             length (filter id [call_trim (tfd ''task_name'') = Inr [], call_trim (tfd ''emp_id'') = Inr [],
                                call_trim (tfd ''project_ID'') = Inr [], js_not (tfd ''start_date''),
                                js_le_zero toNumber (tfd ''estimated_hours'')])"
    if "is_Task tfd"
  proof -
    from that obtain a b c where
      f: "tfd ''task_name'' = Str a" "tfd ''emp_id'' = Str b" "tfd ''project_ID'' = Str c"
      by (rule is_Task_text_fields)
    from TaskForm_newErrors_Str [OF f, of toNumber] obtain E where
      E: "TaskForm_newErrors toNumber tfd = Inr E"
         "dom E =
             (if js_trim a = [] then {''task_name''} else {}) \<union>
             (if js_trim b = [] then {''emp_id''} else {}) \<union>
             (if js_trim c = [] then {''project_ID''} else {}) \<union>
             (if js_not (tfd ''start_date'') then {''start_date''} else {}) \<union>
             (if js_le_zero toNumber (tfd ''estimated_hours'') then {''estimated_hours''} else {})"
      by blast
    have "card (dom E) =
             length (filter id [js_trim a = [], js_trim b = [], js_trim c = [], js_not (tfd ''start_date''),
                                js_le_zero toNumber (tfd ''estimated_hours'')])"
      unfolding E(2) by simp
    with E f show ?thesis by simp
  qed
  from emp task dom_EmployeeForm_newErrors [of efd] show ?thesis by blast
qed

text \<open>
  C8, at forms with every field empty and zero hours: four and five errors at once.
\<close>

theorem validation_reports_every_violation_witness:
  "is_Task (TaskForm_initialFormData example_now) \<and>
   (\<exists>E. TaskForm_newErrors always_NaN (TaskForm_initialFormData example_now) = Inr E \<and>
        card (dom E) = 5) \<and>
   card (dom (EmployeeForm_newErrors (EmployeeForm_initialFormData example_now))) = 4"
proof -
  have h: "is_Task (TaskForm_initialFormData example_now)"
    by (simp add: is_Task_def TaskForm_initialFormData_def Task_string_props_def
        Task_number_props_def)
  from validation_reports_every_violation
    [of "EmployeeForm_initialFormData example_now" "TaskForm_initialFormData example_now" always_NaN] h
  show ?thesis
    by (auto simp: js_trim_Nil eval_nat_numeral EmployeeForm_initialFormData_def
        TaskForm_initialFormData_def)
qed

subsection \<open>Trimmed and untrimmed fields\<close>

text \<open>
  C4, as amended. The text fields \<open>emp_Id\<close>, \<open>emp_name\<close>, \<open>emp_designation\<close> of the employee
  form and \<open>task_name\<close>, \<open>emp_id\<close>, \<open>project_ID\<close> of the task form are trimmed before they are
  tested: a value of white space only gives the same error object as the empty string, with
  the field's error in it. The date fields \<open>date_of_join\<close> and \<open>start_date\<close> are tested as they
  are: they are in error exactly when falsy, that is, for a string, when empty.
\<close>

theorem text_fields_trimmed_dates_not:
  assumes "list_all white_space v"
  shows "(k \<in> {''emp_Id'', ''emp_name'', ''emp_designation''} \<longrightarrow>
            EmployeeForm_newErrors (efd(k := v)) = EmployeeForm_newErrors (efd(k := [])) \<and>
            k \<in> dom (EmployeeForm_newErrors (efd(k := v)))) \<and>
         (k \<in> {''task_name'', ''emp_id'', ''project_ID''} \<longrightarrow>
            TaskForm_newErrors toNumber (tfd(k := Str v)) = TaskForm_newErrors toNumber (tfd(k := Str [])) \<and>
            (\<forall>E. TaskForm_newErrors toNumber (tfd(k := Str v)) = Inr E \<longrightarrow> k \<in> dom E)) \<and>
         (''date_of_join'' \<in> dom (EmployeeForm_newErrors efd) \<longleftrightarrow> efd ''date_of_join'' = []) \<and>
         (\<forall>E s. TaskForm_newErrors toNumber tfd = Inr E \<and> tfd ''start_date'' = Str s \<longrightarrow>
              (''start_date'' \<in> dom E \<longleftrightarrow> s = []))"
proof -
  note t = js_trim_white [OF assms] js_trim_Nil
  have e: "EmployeeForm_newErrors (efd(k := v)) = EmployeeForm_newErrors (efd(k := [])) \<and>
       k \<in> dom (EmployeeForm_newErrors (efd(k := v)))"
    if "k \<in> {''emp_Id'', ''emp_name'', ''emp_designation''}"
  proof -
    from that consider "k = ''emp_Id''" | "k = ''emp_name''" | "k = ''emp_designation''"
      by blast
    then show ?thesis
    proof cases
      case 1
      then show ?thesis using t by (simp add: EmployeeForm_newErrors_def Let_def)
    next
      case 2
      then show ?thesis using t by (simp add: EmployeeForm_newErrors_def Let_def)
    next
      case 3
      then show ?thesis using t by (simp add: EmployeeForm_newErrors_def Let_def)
    qed
  qed
  have ta: "TaskForm_newErrors toNumber (tfd(k := Str v)) = TaskForm_newErrors toNumber (tfd(k := Str [])) \<and>
      (\<forall>E. TaskForm_newErrors toNumber (tfd(k := Str v)) = Inr E \<longrightarrow> k \<in> dom E)"
    if "k \<in> {''task_name'', ''emp_id'', ''project_ID''}"
  proof -
    from that consider "k = ''task_name''" | "k = ''emp_id''" | "k = ''project_ID''"
      by blast
    then show ?thesis
    proof cases
      case 1
      then show ?thesis using t by (auto simp: TaskForm_newErrors_def Let_def split: sum.splits)
    next
      case 2
      then show ?thesis using t by (auto simp: TaskForm_newErrors_def Let_def split: sum.splits)
    next
      case 3
      then show ?thesis using t by (auto simp: TaskForm_newErrors_def Let_def split: sum.splits)
    qed
  qed
  have d: "''date_of_join'' \<in> dom (EmployeeForm_newErrors efd) \<longleftrightarrow> efd ''date_of_join'' = []"
    by (simp add: dom_EmployeeForm_newErrors)
  have s: "''start_date'' \<in> dom E \<longleftrightarrow> s = []"
    if "TaskForm_newErrors toNumber tfd = Inr E" "tfd ''start_date'' = Str s" for E s
    using that by (auto simp: TaskForm_newErrors_def Let_def split: sum.splits if_splits)
  from e ta d s show ?thesis by blast
qed

text \<open>
  C4 as amended, at a single space in \<open>emp_name\<close> and in \<open>emp_id\<close>.
\<close>

theorem text_fields_trimmed_dates_not_witness:
  "list_all white_space '' '' \<and>
   ''emp_name'' \<in> {''emp_Id'', ''emp_name'', ''emp_designation''} \<and>
   ''emp_id'' \<in> {''task_name'', ''emp_id'', ''project_ID''} \<and>
   EmployeeForm_newErrors (example_employee_form(''emp_name'' := '' '')) =
     EmployeeForm_newErrors (example_employee_form(''emp_name'' := [])) \<and>
   ''emp_name'' \<in> dom (EmployeeForm_newErrors (example_employee_form(''emp_name'' := '' ''))) \<and>
   TaskForm_newErrors always_NaN (example_task_form(''emp_id'' := Str '' '')) =
     TaskForm_newErrors always_NaN (example_task_form(''emp_id'' := Str []))"
proof -
  have h: "list_all white_space '' ''"
    by (simp add: white_space_def)
  have m1: "''emp_name'' \<in> {''emp_Id'', ''emp_name'', ''emp_designation''}"
    by simp
  have m2: "''emp_id'' \<in> {''task_name'', ''emp_id'', ''project_ID''}"
    by simp
  note a = text_fields_trimmed_dates_not
    [OF h, of "''emp_name''" example_employee_form always_NaN example_task_form]
  note b = text_fields_trimmed_dates_not
    [OF h, of "''emp_id''" example_employee_form always_NaN example_task_form]
  from a [THEN conjunct1, THEN mp, OF m1]
    b [THEN conjunct2, THEN conjunct1, THEN mp, OF m2, THEN conjunct1] h m1 m2
  show ?thesis
    by (intro conjI) (erule conjunct1 conjunct2 | assumption)+
qed

text \<open>
  C4 as stated fails on the date fields: a single space in \<open>date_of_join\<close> or in
  \<open>start_date\<close> raises no error, while the empty string does.
\<close>

theorem date_fields_whitespace_counterexample:
  "list_all white_space '' '' \<and>
   ''date_of_join'' \<notin> dom (EmployeeForm_newErrors (example_employee_form(''date_of_join'' := '' ''))) \<and>
   ''date_of_join'' \<in> dom (EmployeeForm_newErrors (example_employee_form(''date_of_join'' := []))) \<and>
   TaskForm_newErrors always_NaN (example_task_form(''start_date'' := Str '' '')) = Inr Map.empty \<and>
   TaskForm_newErrors always_NaN (example_task_form(''start_date'' := Str [])) =
     Inr [''start_date'' \<mapsto> ''Start date is required'']"
  by (simp add: white_space_def dom_EmployeeForm_newErrors example_employee_form_def EmployeeForm_initialFormData_def
      TaskForm_newErrors_def example_task_form_def TaskForm_initialFormData_def js_trim_examples)

subsection \<open>The completion date\<close>

text \<open>
  C6, as amended. The task form's validation does not read \<open>completion_date\<close>: whatever is
  stored there, the error object is the same.
\<close>

theorem completion_date_not_validated:
  "TaskForm_newErrors toNumber (fd(''completion_date'' := v)) = TaskForm_newErrors toNumber fd"
  by (simp add: TaskForm_newErrors_def Let_def split: sum.split)

text \<open>
  C6 as stated fails: a task completed on 2024-01-01 and started on 2024-02-01 passes
  validation with an empty error object.
\<close>

theorem completion_before_start_counterexample:
  "example_task_form ''start_date'' = Str ''2024-02-01'' \<and>
   example_task_form ''completion_date'' = Str ''2024-01-01'' \<and>
   \<not> js_string_le ''2024-02-01'' ''2024-01-01'' \<and>
   TaskForm_newErrors always_NaN example_task_form = Inr Map.empty \<and>
   TaskForm_validateForm accepting_taskApi always_NaN None example_task_state =
     Inr (True, example_task_state, [ApiValidate example_task_form False])"
  by (simp add: newErrors_example_task TaskForm_validateForm_def example_task_state_def
      accepting_taskApi_def) (simp add: example_task_form_def TaskForm_initialFormData_def)

subsection \<open>Changing a field\<close>

text \<open>
  C9. \<open>handleChange\<close> stores the new value under the given name and leaves every other
  property of the form data as it was; every other error is as it was, and the error under
  the given name is either as it was or the empty string. This holds for both forms.
\<close>

theorem handleChange_frame:
  "formData (EmployeeForm_handleChange name v st) name = v \<and>
   (\<forall>k. k \<noteq> name \<longrightarrow>
        formData (EmployeeForm_handleChange name v st) k = formData st k \<and>
        errors (EmployeeForm_handleChange name v st) k = errors st k) \<and>
   (errors (EmployeeForm_handleChange name v st) name = errors st name \<or>
    errors (EmployeeForm_handleChange name v st) name = Some []) \<and>
   isSubmitting (EmployeeForm_handleChange name v st) = isSubmitting st \<and>
   formData (TaskForm_handleChange parseFloat name v type tst) name =
     (if type = ''number'' then Num (or_zero (parseFloat v)) else Str v) \<and>
   (\<forall>k. k \<noteq> name \<longrightarrow>
        formData (TaskForm_handleChange parseFloat name v type tst) k = formData tst k \<and>
        errors (TaskForm_handleChange parseFloat name v type tst) k = errors tst k) \<and>
   (errors (TaskForm_handleChange parseFloat name v type tst) name = errors tst name \<or>
    errors (TaskForm_handleChange parseFloat name v type tst) name = Some []) \<and>
   isSubmitting (TaskForm_handleChange parseFloat name v type tst) = isSubmitting tst"
  by (simp add: EmployeeForm_handleChange_def TaskForm_handleChange_def split: option.split)

text \<open>
  C9, at a change of \<open>emp_name\<close> observed on \<open>emp_Id\<close>.
\<close>

theorem handleChange_frame_witness:
  "''emp_Id'' \<noteq> ''emp_name'' \<and>
   formData (EmployeeForm_handleChange ''emp_name'' ''B''
      (example_employee_state\<lparr>errors := [''emp_name'' \<mapsto> ''Employee name is required'',
                                         ''emp_Id'' \<mapsto> ''Employee ID is required'']\<rparr>)) ''emp_Id'' = ''E1'' \<and>
   errors (EmployeeForm_handleChange ''emp_name'' ''B''
      (example_employee_state\<lparr>errors := [''emp_name'' \<mapsto> ''Employee name is required'',
                                         ''emp_Id'' \<mapsto> ''Employee ID is required'']\<rparr>)) ''emp_Id'' =
     Some ''Employee ID is required'' \<and>
   formData (TaskForm_handleChange always_NaN ''emp_name'' ''B'' ''text'' example_task_state) ''emp_Id'' = Str []"
proof -
  let ?st = "example_employee_state\<lparr>errors := [''emp_name'' \<mapsto> ''Employee name is required'',
                                         ''emp_Id'' \<mapsto> ''Employee ID is required'']\<rparr>"
  have ne: "''emp_Id'' \<noteq> ''emp_name''"
    by simp
  note a = handleChange_frame
    [where name = "''emp_name''" and v = "''B''" and st = ?st and parseFloat = always_NaN
       and type = "''text''" and tst = example_task_state]
  note e = a [THEN conjunct2, THEN conjunct1, rule_format, OF ne]
  note t = a [THEN conjunct2, THEN conjunct2, THEN conjunct2, THEN conjunct2, THEN conjunct2,
              THEN conjunct1, rule_format, OF ne]
  have v: "formData ?st ''emp_Id'' = ''E1''" "errors ?st ''emp_Id'' = Some ''Employee ID is required''"
    "formData example_task_state ''emp_Id'' = Str []"
    by (simp_all add: example_employee_state_def example_employee_form_def EmployeeForm_initialFormData_def example_task_state_def
        example_task_form_def TaskForm_initialFormData_def)
  from ne e [THEN conjunct1] e [THEN conjunct2] t [THEN conjunct1] v show ?thesis
    by (simp only: simp_thms)
qed

subsection \<open>Submitting a form\<close>

lemma EmployeeForm_submit:
  "case EmployeeForm_handleSubmit api now employee st of (st', acts) \<Rightarrow>
      errors st' = EmployeeForm_newErrors (formData st) \<and>
      (dom (EmployeeForm_newErrors (formData st)) \<noteq> {} \<longrightarrow> acts = []) \<and>
      ((\<exists>a\<in>set acts. is_store_write a) \<longrightarrow>
         EmployeeForm_newErrors (formData st) = Map.empty \<and>
         validateEmployee api (EmployeeForm_employeeData (formData st)) (employee \<noteq> None) = Resolved \<and>
         (\<exists>w rest. acts = ApiValidate (EmployeeForm_employeeData (formData st)) (employee \<noteq> None) # w # rest \<and>
                   is_store_write w \<and> list_all (\<lambda>a. \<not> is_store_write a) rest))"
proof (cases "dom (EmployeeForm_newErrors (formData st)) \<noteq> {}")
  case True
  then show ?thesis
    by (simp add: EmployeeForm_handleSubmit_def EmployeeForm_validateForm_def Let_def)
next
  case False
  then have e: "EmployeeForm_newErrors (formData st) = Map.empty"
    by simp
  show ?thesis
  proof (cases "validateEmployee api (EmployeeForm_employeeData (formData st)) (employee \<noteq> None)")
    case Resolved
    with e show ?thesis
      by (simp add: EmployeeForm_handleSubmit_def EmployeeForm_validateForm_def Let_def
          split: api_result.split)
  next
    case (Rejected m)
    with e show ?thesis
      by (simp add: EmployeeForm_handleSubmit_def EmployeeForm_validateForm_def Let_def)
  qed
qed

lemma TaskForm_submit:
  "case TaskForm_handleSubmit api toNumber now task st of (st', acts) \<Rightarrow>
      (\<forall>E. TaskForm_newErrors toNumber (formData st) = Inr E \<longrightarrow> errors st' = E) \<and>
      (\<forall>E. TaskForm_newErrors toNumber (formData st) = Inr E \<and> dom E \<noteq> {} \<longrightarrow> acts = []) \<and>
      ((\<exists>a\<in>set acts. is_store_write a) \<longrightarrow>
         TaskForm_newErrors toNumber (formData st) = Inr Map.empty \<and>
         validateTask api (formData st) (task \<noteq> None) = Resolved \<and>
         (\<exists>w rest. acts = ApiValidate (formData st) (task \<noteq> None) # w # rest \<and>
                   is_store_write w \<and> list_all (\<lambda>a. \<not> is_store_write a) rest))"
proof (cases "TaskForm_newErrors toNumber (formData st)")
  case (Inl x)
  then show ?thesis
    by (simp add: TaskForm_handleSubmit_def TaskForm_validateForm_def)
next
  case (Inr E)
  show ?thesis
  proof (cases "dom E \<noteq> {}")
    case True
    with Inr show ?thesis
      by (simp add: TaskForm_handleSubmit_def TaskForm_validateForm_def Let_def)
  next
    case False
    then have e: "E = Map.empty"
      by simp
    show ?thesis
    proof (cases "validateTask api (formData st) (task \<noteq> None)")
      case Resolved
      with Inr e show ?thesis
        by (simp add: TaskForm_handleSubmit_def TaskForm_validateForm_def Let_def
            split: api_result.split)
    next
      case (Rejected m)
      with Inr e show ?thesis
        by (simp add: TaskForm_handleSubmit_def TaskForm_validateForm_def Let_def)
    qed
  qed
qed

text \<open>
  C5. In \<open>handleSubmit\<close> of either form, \<open>setErrors\<close> has run with the complete error object
  whenever validation returns; if that object is non-empty nothing is sent at all; and if a
  store write (update or create) is among the actions, then the error object was empty, the
  validation call resolved, and the actions are that validation call, then the one write,
  then no further write.
\<close>

theorem store_write_only_after_validation:
  "(case EmployeeForm_handleSubmit api now employee st of (st', acts) \<Rightarrow>
      errors st' = EmployeeForm_newErrors (formData st) \<and>
      (dom (EmployeeForm_newErrors (formData st)) \<noteq> {} \<longrightarrow> acts = []) \<and>
      ((\<exists>a\<in>set acts. is_store_write a) \<longrightarrow>
         EmployeeForm_newErrors (formData st) = Map.empty \<and>
         validateEmployee api (EmployeeForm_employeeData (formData st)) (employee \<noteq> None) = Resolved \<and>
         (\<exists>w rest. acts = ApiValidate (EmployeeForm_employeeData (formData st)) (employee \<noteq> None) # w # rest \<and>
                   is_store_write w \<and> list_all (\<lambda>a. \<not> is_store_write a) rest))) \<and>
   (case TaskForm_handleSubmit tapi toNumber now task tst of (st', acts) \<Rightarrow>
      (\<forall>E. TaskForm_newErrors toNumber (formData tst) = Inr E \<longrightarrow> errors st' = E) \<and>
      (\<forall>E. TaskForm_newErrors toNumber (formData tst) = Inr E \<and> dom E \<noteq> {} \<longrightarrow> acts = []) \<and>
      ((\<exists>a\<in>set acts. is_store_write a) \<longrightarrow>
         TaskForm_newErrors toNumber (formData tst) = Inr Map.empty \<and>
         validateTask tapi (formData tst) (task \<noteq> None) = Resolved \<and>
         (\<exists>w rest. acts = ApiValidate (formData tst) (task \<noteq> None) # w # rest \<and>
                   is_store_write w \<and> list_all (\<lambda>a. \<not> is_store_write a) rest)))"
  by (rule conjI [OF EmployeeForm_submit TaskForm_submit])

text \<open>
  C5, at a valid employee and a valid task (a write happens) and at an empty employee form
  (nothing is sent).
\<close>

theorem store_write_only_after_validation_witness:
  "(\<exists>a\<in>set (snd (EmployeeForm_handleSubmit accepting_employeeApi example_now None example_employee_state)).
      is_store_write a) \<and>
   EmployeeForm_newErrors (formData example_employee_state) = Map.empty \<and>
   dom (EmployeeForm_newErrors (formData (example_employee_state\<lparr>formData := EmployeeForm_initialFormData example_now\<rparr>))) \<noteq> {} \<and>
   snd (EmployeeForm_handleSubmit accepting_employeeApi example_now None
          (example_employee_state\<lparr>formData := EmployeeForm_initialFormData example_now\<rparr>)) = [] \<and>
   (\<exists>a\<in>set (snd (TaskForm_handleSubmit accepting_taskApi always_NaN example_now None example_task_state)).
      is_store_write a) \<and>
   TaskForm_newErrors always_NaN (formData example_task_state) = Inr Map.empty"
proof -
  have fd: "formData example_employee_state = example_employee_form"
    "formData example_task_state = example_task_form"
    by (simp_all add: example_employee_state_def example_task_state_def)
  have w1: "\<exists>a\<in>set (snd (EmployeeForm_handleSubmit accepting_employeeApi example_now None example_employee_state)).
      is_store_write a"
    by (simp add: EmployeeForm_handleSubmit_def EmployeeForm_validateForm_def Let_def fd
        newErrors_example_employee accepting_employeeApi_def)
  have w2: "\<exists>a\<in>set (snd (TaskForm_handleSubmit accepting_taskApi always_NaN example_now None example_task_state)).
      is_store_write a"
    by (simp add: TaskForm_handleSubmit_def TaskForm_validateForm_def Let_def fd
        newErrors_example_task accepting_taskApi_def)
  have r: "dom (EmployeeForm_newErrors (formData (example_employee_state\<lparr>formData := EmployeeForm_initialFormData example_now\<rparr>))) \<noteq> {}"
    by (simp add: dom_EmployeeForm_newErrors js_trim_Nil EmployeeForm_initialFormData_def)
  note a = store_write_only_after_validation
    [where api = accepting_employeeApi and now = example_now and employee = None
       and st = example_employee_state and tapi = accepting_taskApi and toNumber = always_NaN
       and task = None and tst = example_task_state]
  note b = store_write_only_after_validation
    [where api = accepting_employeeApi and now = example_now and employee = None
       and st = "example_employee_state\<lparr>formData := EmployeeForm_initialFormData example_now\<rparr>" and tapi = accepting_taskApi
       and toNumber = always_NaN and task = None and tst = example_task_state]
  from a w1 have c1: "EmployeeForm_newErrors (formData example_employee_state) = Map.empty"
    by (simp add: case_prod_unfold)
  from a w2 have c2: "TaskForm_newErrors always_NaN (formData example_task_state) = Inr Map.empty"
    by (simp add: case_prod_unfold)
  from b r have c3: "snd (EmployeeForm_handleSubmit accepting_employeeApi example_now None
          (example_employee_state\<lparr>formData := EmployeeForm_initialFormData example_now\<rparr>)) = []"
    by (simp add: case_prod_unfold)
  from w1 c1 r c3 w2 c2 show ?thesis
    by (intro conjI)
qed

subsection \<open>Skills through the form and back\<close>

text \<open>
  C10, as amended. For a non-empty list of skills without commas and without white space at
  either end, loading the employee into the form and building the payload gives the list
  back. The empty list comes back as the list of one empty string, and so does any form whose
  skills string is empty.
\<close>

theorem skills_round_trip:
  assumes "skills \<noteq> []"
    and "\<forall>s\<in>set skills. CHR '','' \<notin> set s \<and> (s = [] \<or> (\<not> white_space (hd s) \<and> \<not> white_space (last s)))"
  shows "emp_skills (EmployeeForm_employeeData
           (formData (EmployeeForm_useEffect (Some \<lparr>props = p, emp_skills = skills\<rparr>) st))) = skills \<and>
         emp_skills (EmployeeForm_employeeData
           (formData (EmployeeForm_useEffect (Some \<lparr>props = p, emp_skills = []\<rparr>) st))) = [[]] \<and>
         emp_skills (EmployeeForm_employeeData (fd(''emp_skills'' := []))) = [[]]"
proof -
  from assms have "js_split (js_join skills '', '') CHR '','' = hd skills # map ((#) CHR '' '') (tl skills)"
    by (intro js_split_join) auto
  moreover from assms have "js_trim (hd skills) = hd skills"
    by (intro js_trim_id) (cases skills, auto)
  moreover from assms have "map (js_trim \<circ> (#) CHR '' '') (tl skills) = tl skills"
    by (intro map_idI) (cases skills, auto simp: js_trim_space)
  ultimately have "map js_trim (js_split (js_join skills '', '') CHR '','') = skills"
    using assms(1) by simp
  then show ?thesis
    by (simp add: EmployeeForm_employeeData_def EmployeeForm_useEffect_def js_trim_def)
qed

text \<open>
  C10 as amended, at three skills.
\<close>

theorem skills_round_trip_witness:
  "[''React'', ''Node.js'', ''C sharp''] \<noteq> [] \<and>
   list_all (\<lambda>s. CHR '','' \<notin> set s \<and> \<not> white_space (hd s) \<and> \<not> white_space (last s))
     [''React'', ''Node.js'', ''C sharp''] \<and>
   emp_skills (EmployeeForm_employeeData
     (formData (EmployeeForm_useEffect
        (Some \<lparr>props = example_employee_form, emp_skills = [''React'', ''Node.js'', ''C sharp'']\<rparr>)
        example_employee_state))) = [''React'', ''Node.js'', ''C sharp'']"
proof -
  have ne: "[''React'', ''Node.js'', ''C sharp''] \<noteq> []"
    by simp
  have ok: "\<forall>s\<in>set [''React'', ''Node.js'', ''C sharp''].
      CHR '','' \<notin> set s \<and> (s = [] \<or> (\<not> white_space (hd s) \<and> \<not> white_space (last s)))"
    by (simp add: white_space_def)
  have ok': "list_all (\<lambda>s. CHR '','' \<notin> set s \<and> \<not> white_space (hd s) \<and> \<not> white_space (last s))
     [''React'', ''Node.js'', ''C sharp'']"
    by (simp add: white_space_def)
  from skills_round_trip
    [OF ne ok, where p = example_employee_form and st = example_employee_state
       and fd = example_employee_form] ne ok'
  show ?thesis by (intro conjI) (erule conjunct1 | assumption)+
qed

text \<open>
  C10 as stated fails at the empty list of skills, which satisfies its condition and does
  not come back.
\<close>

theorem empty_skills_counterexample:
  "emp_skills (EmployeeForm_employeeData
     (formData (EmployeeForm_useEffect (Some \<lparr>props = example_employee_form, emp_skills = []\<rparr>)
        example_employee_state))) = [[]] \<and>
   [[]] \<noteq> ([] :: string list)"
  by (simp add: EmployeeForm_employeeData_def EmployeeForm_useEffect_def js_trim_def)

subsection \<open>Accumulating hours\<close>

lemma addTaskHours_calls_sum:
  "store taskId = Some t \<Longrightarrow> \<forall>d\<in>set deltas. 0 \<le> d \<Longrightarrow>
   addTaskHours_calls taskId deltas store =
     store(taskId \<mapsto> t\<lparr>actualHours := actualHours t + sum_list deltas\<rparr>)"
proof (induction deltas arbitrary: store t)
  case Nil
  then show ?case by (simp add: map_upd_triv)
next
  case (Cons d ds)
  let ?t = "t\<lparr>actualHours := actualHours t + d\<rparr>"
  let ?s = "store(taskId \<mapsto> ?t)"
  from Cons.prems have step: "updateActualHours addTaskHours taskId d store = Inr (actualHours t + d, ?s)"
    by (simp add: updateActualHours_def addTaskHours_def Let_def)
  have "addTaskHours_calls taskId ds ?s = ?s(taskId \<mapsto> ?t\<lparr>actualHours := actualHours ?t + sum_list ds\<rparr>)"
    using Cons.prems by (intro Cons.IH [where store = "?s" and t = "?t"]) simp_all
  with step show ?case
    by (simp add: add.assoc)
qed

text \<open>
  C1. For a stored Task and non-negative deltas, the calls of \<open>updateActualHours\<close> on the
  modelled endpoint, executed in any order, leave \<open>actualHours\<close> at the previous value plus
  the sum of all deltas; adding 2 and then 3 adds 5.
\<close>

theorem addTaskHours_no_lost_update:
  assumes "store taskId = Some t" and "\<forall>d\<in>set deltas. 0 \<le> d" and "mset order = mset deltas"
  shows "addTaskHours_calls taskId order store =
           store(taskId \<mapsto> t\<lparr>actualHours := actualHours t + sum_list deltas\<rparr>) \<and>
         addTaskHours_calls taskId [2, 3] store = store(taskId \<mapsto> t\<lparr>actualHours := actualHours t + 5\<rparr>)"
proof -
  from assms(3) have "set order = set deltas"
    by (rule mset_eq_setD)
  with assms(2) have nonneg: "\<forall>d\<in>set order. 0 \<le> d"
    by simp
  from assms(3) have "sum_list order = sum_list deltas"
    by (metis sum_mset_sum_list)
  with addTaskHours_calls_sum [where store = store and taskId = taskId and t = t and deltas = order]
    assms(1) nonneg
  have a: "addTaskHours_calls taskId order store =
           store(taskId \<mapsto> t\<lparr>actualHours := actualHours t + sum_list deltas\<rparr>)"
    by simp
  have b: "addTaskHours_calls taskId [2, 3] store = store(taskId \<mapsto> t\<lparr>actualHours := actualHours t + 5\<rparr>)"
    using addTaskHours_calls_sum [where store = store and taskId = taskId and t = t and deltas = "[2, 3]"]
      assms(1) by simp
  from a b show ?thesis ..
qed

text \<open>
  C1, at the deltas 2 and 3 applied in the other order.
\<close>

theorem addTaskHours_no_lost_update_witness:
  "example_store ''T1'' = Some \<lparr>estimatedHours = 5, actualHours = 1\<rparr> \<and>
   list_all (\<lambda>d. 0 \<le> d) [2, 3 :: rat] \<and>
   mset [3, 2 :: rat] = mset [2, 3] \<and>
   addTaskHours_calls ''T1'' [3, 2] example_store = example_store(''T1'' \<mapsto> \<lparr>estimatedHours = 5, actualHours = 6\<rparr>) \<and>
   addTaskHours_calls ''T1'' [2, 3] example_store = example_store(''T1'' \<mapsto> \<lparr>estimatedHours = 5, actualHours = 6\<rparr>)"
proof -
  have s: "example_store ''T1'' = Some \<lparr>estimatedHours = 5, actualHours = 1\<rparr>"
    by (simp add: example_store_def)
  have n: "\<forall>d\<in>set [2, 3 :: rat]. 0 \<le> d"
    by simp
  have m: "mset [3, 2 :: rat] = mset [2, 3]"
    by (simp add: add.commute)
  from addTaskHours_no_lost_update
    [where store = example_store and taskId = "''T1''" and deltas = "[2, 3]" and order = "[3, 2]", OF s n m]
    s m
  show ?thesis by simp
qed

text \<open>
  C7. With a negative delta the call of \<open>updateActualHours\<close> on the modelled endpoint fails
  with the validation error, and the store, hence \<open>actualHours\<close>, is as it was.
\<close>

theorem addTaskHours_negative_delta:
  assumes "delta < 0"
  shows "updateActualHours addTaskHours taskId delta store = Inl FieldValidationError \<and>
         addTaskHours_calls taskId [delta] store = store"
  using assms by (simp add: updateActualHours_def addTaskHours_def)

text \<open>
  C7, at the delta \<open>-1\<close>.
\<close>

theorem addTaskHours_negative_delta_witness:
  "(- 1 :: rat) < 0 \<and>
   updateActualHours addTaskHours ''T1'' (- 1) example_store = Inl FieldValidationError \<and>
   addTaskHours_calls ''T1'' [- 1] example_store = example_store \<and>
   example_store ''T1'' = Some \<lparr>estimatedHours = 5, actualHours = 1\<rparr>"
proof -
  have h: "(- 1 :: rat) < 0" by simp
  from addTaskHours_negative_delta [OF h, where taskId = "''T1''" and store = example_store] h
  show ?thesis by (simp add: example_store_def)
qed

end
